theory Spec2Isabelle
  imports Main "HOL-Library.Multiset"
begin

section \<open>Column Tree Reducer: unification of node categories\<close>

text \<open>
  The node categories of \<^verbatim>\<open>node_t\<close>. The merge operator is the lambda handed to
  \<^verbatim>\<open>thrust::reduce_by_key\<close> in \<^verbatim>\<open>gather_column_info\<close> (json_column.cu) and, textually
  the same, in \<^verbatim>\<open>reduce_to_column_tree\<close>; \<^verbatim>\<open>max_row_offsets_col_categories\<close> pairs it
  with the maximum of the row offsets.
\<close>

datatype node_t = NC_STRUCT | NC_LIST | NC_FN | NC_STR | NC_VAL | NC_ERR

definition col_category_op :: "node_t \<Rightarrow> node_t \<Rightarrow> node_t" where
  "col_category_op type_a type_b =
     (let is_a_leaf = (type_a = NC_VAL \<or> type_a = NC_STR);
          is_b_leaf = (type_b = NC_VAL \<or> type_b = NC_STR)
      in if type_a = type_b then type_a
         else if is_a_leaf then
           (if type_b = NC_FN then NC_ERR else (if is_b_leaf then NC_STR else type_b))
         else if is_b_leaf then
           (if type_a = NC_FN then NC_ERR else (if is_a_leaf then NC_STR else type_a))
         else NC_ERR)"

definition max_row_offsets_col_categories_op ::
  "int \<times> node_t \<Rightarrow> int \<times> node_t \<Rightarrow> int \<times> node_t" where
  "max_row_offsets_col_categories_op a b =
     (let row_offset_a = fst a; row_offset_b = fst b;
          type_a = snd a; type_b = snd b;
          is_a_leaf = (type_a = NC_VAL \<or> type_a = NC_STR);
          is_b_leaf = (type_b = NC_VAL \<or> type_b = NC_STR);
          ctg = (if type_a = type_b then type_a
                 else if is_a_leaf then
                   (if type_b = NC_FN then NC_ERR else (if is_b_leaf then NC_STR else type_b))
                 else if is_b_leaf then
                   (if type_a = NC_FN then NC_ERR else (if is_a_leaf then NC_STR else type_a))
                 else NC_ERR)
      in (max row_offset_a row_offset_b, ctg))"

text \<open>
  A reduce-by-key combines the values of one run of equal keys in input order but in an
  unspecified grouping. A grouping is a binary tree over the run; \<open>run_values\<close> reads the
  run back off the tree from left to right.
\<close>

datatype 'a grouping = Single 'a | Combine "'a grouping" "'a grouping"

fun run_values :: "'a grouping \<Rightarrow> 'a list" where
  "run_values (Single x) = [x]"
| "run_values (Combine l r) = run_values l @ run_values r"

fun reduce_grouping :: "('a \<Rightarrow> 'a \<Rightarrow> 'a) \<Rightarrow> 'a grouping \<Rightarrow> 'a" where
  "reduce_grouping f (Single x) = x"
| "reduce_grouping f (Combine l r) = f (reduce_grouping f l) (reduce_grouping f r)"

section \<open>Tokenizing pushdown automaton\<close>

datatype token_t =
  TK_BOS | TK_BOL | TK_ERR | TK_BST | TK_BOV | TK_EOL | TK_EOS | TK_BFN | TK_POV | TK_EST | TK_EFN

datatype SGID = OBC | OBT | CBC | CBT | QTE | ESC | CMA | CLN | WSP | OTR

datatype STACK_SGID = STACK_ROOT | STACK_LIST | STACK_STRUCT

datatype pda_state_t =
  PD_BOV | PD_BOA | PD_LON | PD_STR | PD_SCE | PD_PVL | PD_BFN | PD_FLN | PD_FNE | PD_PFN | PD_ERR

fun sgid_index :: "SGID \<Rightarrow> nat" where
  "sgid_index OBC = 0" | "sgid_index OBT = 1" | "sgid_index CBC = 2" | "sgid_index CBT = 3"
| "sgid_index QTE = 4" | "sgid_index ESC = 5" | "sgid_index CMA = 6" | "sgid_index CLN = 7"
| "sgid_index WSP = 8" | "sgid_index OTR = 9"

fun stack_index :: "STACK_SGID \<Rightarrow> nat" where
  "stack_index STACK_ROOT = 0" | "stack_index STACK_LIST = 1" | "stack_index STACK_STRUCT = 2"

definition NUM_PDA_INPUT_SGS :: nat where
  "NUM_PDA_INPUT_SGS = 10"

text \<open>\<^verbatim>\<open>PdaSymbolToSymbolGroupId\<close>: the column of the tables for a symbol group read under a
  top-of-stack symbol.\<close>

definition pda_sgid :: "STACK_SGID \<Rightarrow> SGID \<Rightarrow> nat" where
  "pda_sgid stack_symbol symbol_gid = stack_index stack_symbol * NUM_PDA_INPUT_SGS + sgid_index symbol_gid"

text \<open>\<^verbatim>\<open>get_transition_table\<close> and \<^verbatim>\<open>get_translation_table\<close>, one row of 30 cells per state.\<close>

fun pda_tt :: "pda_state_t \<Rightarrow> pda_state_t list" where
  "pda_tt PD_BOV =
     [PD_BOA, PD_BOA, PD_ERR, PD_ERR, PD_STR, PD_ERR, PD_ERR, PD_ERR, PD_BOV, PD_LON,
      PD_BOA, PD_BOA, PD_ERR, PD_ERR, PD_STR, PD_ERR, PD_ERR, PD_ERR, PD_BOV, PD_LON,
      PD_BOA, PD_BOA, PD_ERR, PD_ERR, PD_STR, PD_ERR, PD_ERR, PD_ERR, PD_BOV, PD_LON]"
| "pda_tt PD_BOA =
     [PD_ERR, PD_ERR, PD_ERR, PD_ERR, PD_ERR, PD_ERR, PD_ERR, PD_ERR, PD_ERR, PD_ERR,
      PD_BOA, PD_BOA, PD_ERR, PD_PVL, PD_STR, PD_ERR, PD_ERR, PD_ERR, PD_BOA, PD_LON,
      PD_ERR, PD_ERR, PD_PVL, PD_ERR, PD_FLN, PD_ERR, PD_ERR, PD_ERR, PD_BOA, PD_ERR]"
| "pda_tt PD_LON =
     [PD_ERR, PD_ERR, PD_ERR, PD_ERR, PD_ERR, PD_ERR, PD_ERR, PD_ERR, PD_PVL, PD_LON,
      PD_ERR, PD_ERR, PD_ERR, PD_PVL, PD_ERR, PD_ERR, PD_BOV, PD_ERR, PD_PVL, PD_LON,
      PD_ERR, PD_ERR, PD_PVL, PD_ERR, PD_ERR, PD_ERR, PD_BFN, PD_ERR, PD_PVL, PD_LON]"
| "pda_tt PD_STR =
     [PD_STR, PD_STR, PD_STR, PD_STR, PD_PVL, PD_SCE, PD_STR, PD_STR, PD_STR, PD_STR,
      PD_STR, PD_STR, PD_STR, PD_STR, PD_PVL, PD_SCE, PD_STR, PD_STR, PD_STR, PD_STR,
      PD_STR, PD_STR, PD_STR, PD_STR, PD_PVL, PD_SCE, PD_STR, PD_STR, PD_STR, PD_STR]"
| "pda_tt PD_SCE =
     [PD_STR, PD_STR, PD_STR, PD_STR, PD_STR, PD_STR, PD_STR, PD_STR, PD_STR, PD_STR,
      PD_STR, PD_STR, PD_STR, PD_STR, PD_STR, PD_STR, PD_STR, PD_STR, PD_STR, PD_STR,
      PD_STR, PD_STR, PD_STR, PD_STR, PD_STR, PD_STR, PD_STR, PD_STR, PD_STR, PD_STR]"
| "pda_tt PD_PVL =
     [PD_ERR, PD_ERR, PD_ERR, PD_ERR, PD_ERR, PD_ERR, PD_ERR, PD_ERR, PD_PVL, PD_ERR,
      PD_ERR, PD_ERR, PD_ERR, PD_PVL, PD_ERR, PD_ERR, PD_BOV, PD_ERR, PD_PVL, PD_ERR,
      PD_ERR, PD_ERR, PD_PVL, PD_ERR, PD_ERR, PD_ERR, PD_BFN, PD_ERR, PD_PVL, PD_ERR]"
| "pda_tt PD_BFN =
     [PD_ERR, PD_ERR, PD_ERR, PD_ERR, PD_ERR, PD_ERR, PD_ERR, PD_ERR, PD_ERR, PD_ERR,
      PD_ERR, PD_ERR, PD_ERR, PD_ERR, PD_ERR, PD_ERR, PD_ERR, PD_ERR, PD_ERR, PD_ERR,
      PD_ERR, PD_ERR, PD_ERR, PD_ERR, PD_FLN, PD_ERR, PD_ERR, PD_ERR, PD_BFN, PD_ERR]"
| "pda_tt PD_FLN =
     [PD_ERR, PD_ERR, PD_ERR, PD_ERR, PD_ERR, PD_ERR, PD_ERR, PD_ERR, PD_ERR, PD_ERR,
      PD_ERR, PD_ERR, PD_ERR, PD_ERR, PD_ERR, PD_ERR, PD_ERR, PD_ERR, PD_ERR, PD_ERR,
      PD_FLN, PD_FLN, PD_FLN, PD_FLN, PD_PFN, PD_FNE, PD_FLN, PD_FLN, PD_FLN, PD_FLN]"
| "pda_tt PD_FNE =
     [PD_ERR, PD_ERR, PD_ERR, PD_ERR, PD_ERR, PD_ERR, PD_ERR, PD_ERR, PD_ERR, PD_ERR,
      PD_ERR, PD_ERR, PD_ERR, PD_ERR, PD_ERR, PD_ERR, PD_ERR, PD_ERR, PD_ERR, PD_ERR,
      PD_FLN, PD_FLN, PD_FLN, PD_FLN, PD_FLN, PD_FLN, PD_FLN, PD_FLN, PD_FLN, PD_FLN]"
| "pda_tt PD_PFN =
     [PD_ERR, PD_ERR, PD_ERR, PD_ERR, PD_ERR, PD_ERR, PD_ERR, PD_ERR, PD_ERR, PD_ERR,
      PD_ERR, PD_ERR, PD_ERR, PD_ERR, PD_ERR, PD_ERR, PD_ERR, PD_ERR, PD_ERR, PD_ERR,
      PD_ERR, PD_ERR, PD_ERR, PD_ERR, PD_ERR, PD_ERR, PD_ERR, PD_BOV, PD_PFN, PD_ERR]"
| "pda_tt PD_ERR =
     [PD_ERR, PD_ERR, PD_ERR, PD_ERR, PD_ERR, PD_ERR, PD_ERR, PD_ERR, PD_ERR, PD_ERR,
      PD_ERR, PD_ERR, PD_ERR, PD_ERR, PD_ERR, PD_ERR, PD_ERR, PD_ERR, PD_ERR, PD_ERR,
      PD_ERR, PD_ERR, PD_ERR, PD_ERR, PD_ERR, PD_ERR, PD_ERR, PD_ERR, PD_ERR, PD_ERR]"

fun pda_tlt :: "pda_state_t \<Rightarrow> token_t list list" where
  "pda_tlt PD_BOV =
     [[TK_BOS], [TK_BOL], [TK_ERR], [TK_ERR], [TK_BST], [TK_ERR], [TK_ERR], [TK_ERR], [], [TK_BOV],
      [TK_BOS], [TK_BOL], [TK_ERR], [TK_ERR], [TK_BST], [TK_ERR], [TK_ERR], [TK_ERR], [], [TK_BOV],
      [TK_BOS], [TK_BOL], [TK_ERR], [TK_ERR], [TK_BST], [TK_ERR], [TK_ERR], [TK_ERR], [], [TK_BOV]]"
| "pda_tlt PD_BOA =
     [[TK_ERR], [TK_ERR], [TK_ERR], [TK_ERR], [TK_ERR], [TK_ERR], [TK_ERR], [TK_ERR], [TK_ERR], [TK_ERR],
      [TK_BOS], [TK_BOL], [TK_ERR], [TK_EOL], [TK_BST], [TK_ERR], [TK_ERR], [TK_ERR], [], [TK_BOV],
      [TK_ERR], [TK_ERR], [TK_EOS], [TK_ERR], [TK_BFN], [TK_ERR], [TK_ERR], [TK_ERR], [], [TK_ERR]]"
| "pda_tlt PD_LON =
     [[TK_ERR], [TK_ERR], [TK_ERR], [TK_ERR], [TK_ERR], [TK_ERR], [TK_ERR], [TK_ERR], [TK_POV], [],
      [TK_ERR], [TK_ERR], [TK_ERR], [TK_POV, TK_EOL], [TK_ERR], [TK_ERR], [TK_POV], [TK_ERR], [TK_POV], [],
      [TK_ERR], [TK_ERR], [TK_POV, TK_EOS], [TK_ERR], [TK_ERR], [TK_ERR], [TK_POV], [TK_ERR], [TK_POV], []]"
| "pda_tlt PD_STR =
     [[], [], [], [], [TK_EST], [], [], [], [], [],
      [], [], [], [], [TK_EST], [], [], [], [], [],
      [], [], [], [], [TK_EST], [], [], [], [], []]"
| "pda_tlt PD_SCE =
     [[], [], [], [], [], [], [], [], [], [],
      [], [], [], [], [], [], [], [], [], [],
      [], [], [], [], [], [], [], [], [], []]"
| "pda_tlt PD_PVL =
     [[TK_ERR], [TK_ERR], [TK_ERR], [TK_ERR], [TK_ERR], [TK_ERR], [TK_ERR], [TK_ERR], [], [TK_ERR],
      [TK_ERR], [TK_ERR], [TK_ERR], [TK_EOL], [TK_ERR], [TK_ERR], [], [TK_ERR], [], [TK_ERR],
      [TK_ERR], [TK_ERR], [TK_EOS], [TK_ERR], [TK_ERR], [TK_ERR], [], [TK_ERR], [], [TK_ERR]]"
| "pda_tlt PD_BFN =
     [[TK_ERR], [TK_ERR], [TK_ERR], [TK_ERR], [TK_ERR], [TK_ERR], [TK_ERR], [TK_ERR], [TK_ERR], [TK_ERR],
      [TK_ERR], [TK_ERR], [TK_ERR], [TK_ERR], [TK_ERR], [TK_ERR], [TK_ERR], [TK_ERR], [TK_ERR], [TK_ERR],
      [TK_ERR], [TK_ERR], [TK_ERR], [TK_ERR], [TK_BFN], [TK_ERR], [TK_ERR], [TK_ERR], [], [TK_ERR]]"
| "pda_tlt PD_FLN =
     [[TK_ERR], [TK_ERR], [TK_ERR], [TK_ERR], [TK_ERR], [TK_ERR], [TK_ERR], [TK_ERR], [TK_ERR], [TK_ERR],
      [TK_ERR], [TK_ERR], [TK_ERR], [TK_ERR], [TK_ERR], [TK_ERR], [TK_ERR], [TK_ERR], [TK_ERR], [TK_ERR],
      [], [], [], [], [TK_EFN], [], [], [], [], []]"
| "pda_tlt PD_FNE =
     [[TK_ERR], [TK_ERR], [TK_ERR], [TK_ERR], [TK_ERR], [TK_ERR], [TK_ERR], [TK_ERR], [TK_ERR], [TK_ERR],
      [TK_ERR], [TK_ERR], [TK_ERR], [TK_ERR], [TK_ERR], [TK_ERR], [TK_ERR], [TK_ERR], [TK_ERR], [TK_ERR],
      [], [], [], [], [], [], [], [], [], []]"
| "pda_tlt PD_PFN =
     [[TK_ERR], [TK_ERR], [TK_ERR], [TK_ERR], [TK_ERR], [TK_ERR], [TK_ERR], [TK_ERR], [TK_ERR], [TK_ERR],
      [TK_ERR], [TK_ERR], [TK_ERR], [TK_ERR], [TK_ERR], [TK_ERR], [TK_ERR], [TK_ERR], [TK_ERR], [TK_ERR],
      [TK_ERR], [TK_ERR], [TK_ERR], [TK_ERR], [TK_ERR], [TK_ERR], [TK_ERR], [], [], [TK_ERR]]"
| "pda_tlt PD_ERR =
     [[], [], [], [], [], [], [], [], [], [],
      [], [], [], [], [], [], [], [], [], [],
      [], [], [], [], [], [], [], [], [], []]"

definition pda_next_state :: "pda_state_t \<Rightarrow> STACK_SGID \<Rightarrow> SGID \<Rightarrow> pda_state_t" where
  "pda_next_state s stack_symbol symbol_gid = pda_tt s ! pda_sgid stack_symbol symbol_gid"

definition pda_emitted :: "pda_state_t \<Rightarrow> STACK_SGID \<Rightarrow> SGID \<Rightarrow> token_t list" where
  "pda_emitted s stack_symbol symbol_gid = pda_tlt s ! pda_sgid stack_symbol symbol_gid"


section \<open>Stack context and token stream\<close>

datatype error = logic_error string

text \<open>
  The symbol-group table of the tokenizer, 127 entries indexed by the character code.
\<close>

definition tos_sg_to_pda_sgid :: "SGID list" where
  "tos_sg_to_pda_sgid =
     [OTR, OTR, OTR, OTR, OTR, OTR, OTR, OTR, OTR, WSP, WSP, OTR, OTR, WSP, OTR, OTR, OTR, OTR, OTR,
      OTR, OTR, OTR, OTR, OTR, OTR, OTR, OTR, OTR, OTR, OTR, OTR, OTR, WSP, OTR, QTE, OTR, OTR, OTR,
      OTR, OTR, OTR, OTR, OTR, OTR, CMA, OTR, OTR, OTR, OTR, OTR, OTR, OTR, OTR, OTR, OTR, OTR, OTR,
      OTR, CLN, OTR, OTR, OTR, OTR, OTR, OTR, OTR, OTR, OTR, OTR, OTR, OTR, OTR, OTR, OTR, OTR, OTR,
      OTR, OTR, OTR, OTR, OTR, OTR, OTR, OTR, OTR, OTR, OTR, OTR, OTR, OTR, OTR, OBT, ESC, CBT, OTR,
      OTR, OTR, OTR, OTR, OTR, OTR, OTR, OTR, OTR, OTR, OTR, OTR, OTR, OTR, OTR, OTR, OTR, OTR, OTR,
      OTR, OTR, OTR, OTR, OTR, OTR, OTR, OTR, OTR, OBC, OTR, CBC, OTR]"

text \<open>
  \<^verbatim>\<open>PdaSymbolToSymbolGroupId\<close>. The symbol is converted to a 32-bit integer and clamped from
  above to the last index of the table, and the functor returns a group id for every pair.
  For a byte below 128 that is the table entry of the byte. For a byte of 128 or more the
  entry read depends on the signedness of \<^verbatim>\<open>char\<close>: unsigned, the clamp gives the last entry;
  signed, the index is negative and the entry lies in front of the table. \<open>high_byte\<close> is the
  entry read for such a byte.
\<close>

definition stack_idx :: "char \<Rightarrow> STACK_SGID" where
  "stack_idx stack_symbol =
     (if stack_symbol = CHR ''_'' then STACK_ROOT
      else if stack_symbol = CHR ''['' then STACK_LIST else STACK_STRUCT)"

definition PdaSymbolToSymbolGroupId :: "(char \<Rightarrow> SGID) \<Rightarrow> char \<times> char \<Rightarrow> nat" where
  "PdaSymbolToSymbolGroupId high_byte symbol_pair =
     (let symbol = fst symbol_pair; stack_symbol = snd symbol_pair;
          symbol_gid =
            (if (of_char symbol :: nat) < 128
             then tos_sg_to_pda_sgid ! min (of_char symbol) (length tos_sg_to_pda_sgid - 1)
             else high_byte symbol)
      in pda_sgid (stack_idx stack_symbol) symbol_gid)"

text \<open>The entry read for a byte of 128 or more where \<^verbatim>\<open>char\<close> is unsigned: the last entry of
  the table, the group of all other characters.\<close>

definition clamped_high_byte :: "char \<Rightarrow> SGID" where
  "clamped_high_byte symbol = tos_sg_to_pda_sgid ! (length tos_sg_to_pda_sgid - 1)"

subsection \<open>The JSON-to-stack-operation automaton\<close>

datatype DFA_STATES = TT_OOS | TT_STR | TT_ESC

text \<open>
  The symbol groups \<^verbatim>\<open>{ [ } ] " \\<close> of \<^verbatim>\<open>to_stack_op::symbol_groups\<close>, numbered 0 to 5, and
  6 for every other character.
\<close>

definition to_stack_op_symbol_groups :: "char list" where
  "to_stack_op_symbol_groups = [CHR ''{'', CHR ''['', CHR ''}'', CHR '']'', CHR 0x22, CHR 0x5C]"

fun index_of :: "'a \<Rightarrow> 'a list \<Rightarrow> nat" where
  "index_of x [] = 0"
| "index_of x (y # ys) = (if x = y then 0 else Suc (index_of x ys))"

definition to_stack_op_sgid :: "char \<Rightarrow> nat" where
  "to_stack_op_sgid c = index_of c to_stack_op_symbol_groups"

fun to_stack_op_transition_table :: "DFA_STATES \<Rightarrow> DFA_STATES list" where
  "to_stack_op_transition_table TT_OOS = [TT_OOS, TT_OOS, TT_OOS, TT_OOS, TT_STR, TT_OOS, TT_OOS]"
| "to_stack_op_transition_table TT_STR = [TT_STR, TT_STR, TT_STR, TT_STR, TT_OOS, TT_STR, TT_STR]"
| "to_stack_op_transition_table TT_ESC = [TT_STR, TT_STR, TT_STR, TT_STR, TT_STR, TT_STR, TT_STR]"

fun to_stack_op_translation_table :: "DFA_STATES \<Rightarrow> char list list" where
  "to_stack_op_translation_table TT_OOS =
     [[CHR ''{''], [CHR ''[''], [CHR ''}''], [CHR '']''], [CHR ''x''], [CHR ''x''], [CHR ''x'']]"
| "to_stack_op_translation_table TT_STR =
     [[CHR ''x''], [CHR ''x''], [CHR ''x''], [CHR ''x''], [CHR ''x''], [CHR ''x''], [CHR ''x'']]"
| "to_stack_op_translation_table TT_ESC =
     [[CHR ''x''], [CHR ''x''], [CHR ''x''], [CHR ''x''], [CHR ''x''], [CHR ''x''], [CHR ''x'']]"

datatype stack_op_type = PUSH | POP | READ

definition JSONToStackOp :: "char \<Rightarrow> stack_op_type" where
  "JSONToStackOp stack_symbol =
     (if stack_symbol = CHR ''{'' \<or> stack_symbol = CHR ''['' then PUSH
      else if stack_symbol = CHR ''}'' \<or> stack_symbol = CHR '']'' then POP
      else READ)"

text \<open>
  Modelled from the spec: the transducer engine \<^verbatim>\<open>fst::detail::Dfa\<close> (io/fst) is not among
  the sources. It reads the symbol groups in input order from the start state; every
  transition emits the symbols of its translation-table cell, each with the index of the
  input symbol read, and moves to the state of its transition-table cell.
\<close>

fun Transduce ::
  "('s \<Rightarrow> 's list) \<Rightarrow> ('s \<Rightarrow> 'o list list) \<Rightarrow> 's \<Rightarrow> nat \<Rightarrow> nat list \<Rightarrow> ('o \<times> nat) list" where
  "Transduce tt tlt s i [] = []"
| "Transduce tt tlt s i (g # gs) =
     map (\<lambda>out. (out, i)) (tlt s ! g) @ Transduce tt tlt (tt s ! g) (Suc i) gs"

text \<open>
  Modelled from the spec: the logical-stack primitive \<^verbatim>\<open>fst::sparse_stack_op_to_top_of_stack\<close>
  (io/fst/logical_stack.cuh) is not among the sources. For every position it gives the symbol
  on top of the stack in effect at that position, before the position's own push or pop,
  and the root symbol for the empty stack; a pop of the empty stack leaves it empty.
\<close>

fun sparse_stack_op_to_top_of_stack :: "char \<Rightarrow> char list \<Rightarrow> char list \<Rightarrow> char list" where
  "sparse_stack_op_to_top_of_stack root_symbol st [] = []"
| "sparse_stack_op_to_top_of_stack root_symbol st (c # cs) =
     (case st of [] \<Rightarrow> root_symbol | t # _ \<Rightarrow> t) #
     sparse_stack_op_to_top_of_stack root_symbol
       (case JSONToStackOp c of PUSH \<Rightarrow> c # st | POP \<Rightarrow> tl st | READ \<Rightarrow> st) cs"

definition get_stack_context :: "char list \<Rightarrow> char list" where
  "get_stack_context d_json_in =
     (let root_symbol = CHR ''_'';
          d_stack_ops = map fst (Transduce to_stack_op_transition_table
                                   to_stack_op_translation_table TT_OOS 0
                                   (map to_stack_op_sgid d_json_in))
      in sparse_stack_op_to_top_of_stack root_symbol [] d_stack_ops)"

definition get_token_stream :: "(char \<Rightarrow> SGID) \<Rightarrow> char list \<Rightarrow> (token_t \<times> nat) list" where
  "get_token_stream high_byte d_json_in =
     (let d_top_of_stack = get_stack_context d_json_in;
          d_pda_sgids = map (PdaSymbolToSymbolGroupId high_byte) (zip d_json_in d_top_of_stack)
      in Transduce pda_tt pda_tlt PD_BOV 0 d_pda_sgids)"

section \<open>Node Tree Builder\<close>

record tree_meta_t =
  node_categories :: "node_t list"
  parent_node_ids :: "int list"
  node_levels :: "nat list"
  node_range_begin :: "nat list"
  node_range_end :: "nat list"

text \<open>
  The sentinel of root-level nodes. Its declaration (nested_json.hpp) is not among the
  sources; the Column Tree Reducer compares parent ids with the literal -1 in its place.
\<close>

definition parent_node_sentinel :: int where
  "parent_node_sentinel = - 1"

definition is_node :: "token_t \<Rightarrow> bool" where
  "is_node token = (case token of
      TK_BOS \<Rightarrow> True | TK_BOL \<Rightarrow> True | TK_BST \<Rightarrow> True | TK_BOV \<Rightarrow> True
    | TK_BFN \<Rightarrow> True | TK_ERR \<Rightarrow> True | _ \<Rightarrow> False)"

definition token_to_node :: "token_t \<Rightarrow> node_t" where
  "token_to_node token = (case token of
      TK_BOS \<Rightarrow> NC_STRUCT | TK_BOL \<Rightarrow> NC_LIST | TK_BST \<Rightarrow> NC_STR | TK_BOV \<Rightarrow> NC_VAL
    | TK_BFN \<Rightarrow> NC_FN | _ \<Rightarrow> NC_ERR)"

definition get_token_index :: "token_t \<Rightarrow> nat \<Rightarrow> nat" where
  "get_token_index token token_index = (case token of
      TK_BST \<Rightarrow> token_index + 1 | TK_BFN \<Rightarrow> token_index + 1 | _ \<Rightarrow> token_index)"

definition is_begin_of_section :: "token_t \<Rightarrow> bool" where
  "is_begin_of_section token = (case token of
      TK_BST \<Rightarrow> True | TK_BOV \<Rightarrow> True | TK_BFN \<Rightarrow> True | _ \<Rightarrow> False)"

definition end_of_partner :: "token_t \<Rightarrow> token_t" where
  "end_of_partner token = (case token of
      TK_BST \<Rightarrow> TK_EST | TK_BOV \<Rightarrow> TK_POV | TK_BFN \<Rightarrow> TK_EFN | _ \<Rightarrow> TK_ERR)"

definition does_pop :: "token_t \<Rightarrow> bool" where
  "does_pop token = (case token of TK_EOS \<Rightarrow> True | TK_EOL \<Rightarrow> True | _ \<Rightarrow> False)"

definition does_push :: "token_t \<Rightarrow> bool" where
  "does_push token = (case token of TK_BOS \<Rightarrow> True | TK_BOL \<Rightarrow> True | _ \<Rightarrow> False)"

record tree_builder =
  parent_stack :: "(int \<times> bool) list"
  tree :: tree_meta_t
  node_id :: int

definition emit_node :: "token_t \<Rightarrow> int \<Rightarrow> nat \<Rightarrow> nat \<Rightarrow> nat \<Rightarrow> tree_meta_t \<Rightarrow> tree_meta_t" where
  "emit_node token parent_id level range_begin range_end t =
     t\<lparr>node_categories := node_categories t @ [token_to_node token],
       parent_node_ids := parent_node_ids t @ [parent_id],
       node_levels := node_levels t @ [level],
       node_range_begin := node_range_begin t @ [range_begin],
       node_range_end := node_range_end t @ [range_end]\<rparr>"

text \<open>
  The stack update of one token; the top of the stack is the head of the list. A pop of the
  empty stack is the failing \<^verbatim>\<open>CUDF_EXPECTS\<close>.
\<close>

definition modify_stack ::
  "token_t \<Rightarrow> int \<Rightarrow> (int \<times> bool) list \<Rightarrow> error + (int \<times> bool) list" where
  "modify_stack token nid st =
     (if token = TK_BFN then Inr ((nid, True) # st)
      else
        (case (if does_push token then Inr ((nid, False) # st)
               else if does_pop token then
                 (if length st \<ge> 1 then Inr (tl st) else Inl (logic_error ''Invalid JSON input.''))
               else Inr st) of
           Inl e \<Rightarrow> Inl e
         | Inr st1 \<Rightarrow>
             Inr (if length st1 \<ge> 1 \<and> snd (hd st1) = True then tl st1 else st1)))"

text \<open>
  The loop over the tokens. The numeric values of the token enumerators (nested_json.hpp) are
  not among the sources, and the loop converts a token to a truth value in
  \<^verbatim>\<open>end_of_partner(tokens_gpu[i + 1])\<close>; \<open>code\<close> is that numbering.
\<close>

function tree_loop ::
  "(token_t \<Rightarrow> nat) \<Rightarrow> (token_t \<times> nat) list \<Rightarrow> tree_builder \<Rightarrow> error + tree_meta_t" where
  "tree_loop code [] b = Inr (tree b)"
| "tree_loop code ((token, token_index) # rest) b =
     (let range_begin = get_token_index token token_index;
          parent_id = (if length (parent_stack b) > 0 then fst (hd (parent_stack b))
                       else parent_node_sentinel);
          consume = (is_begin_of_section token \<and> rest \<noteq> [] \<and>
                     code (end_of_partner (fst (hd rest))) \<noteq> 0);
          range_end = (if consume then snd (hd rest) else range_begin + 1);
          t = (if is_node token
               then emit_node token parent_id (length (parent_stack b)) range_begin range_end (tree b)
               else tree b)
      in case modify_stack token (node_id b) (parent_stack b) of
           Inl e \<Rightarrow> Inl e
         | Inr st \<Rightarrow>
             tree_loop code (if consume then tl rest else rest)
               \<lparr>parent_stack = st, tree = t,
                node_id = (if is_node token then node_id b + 1 else node_id b)\<rparr>)"
  by pat_completeness auto
termination
  by (relation "measure (\<lambda>(code, ts, b). length ts)") auto

definition empty_tree :: tree_meta_t where
  "empty_tree = \<lparr>node_categories = [], parent_node_ids = [], node_levels = [],
                 node_range_begin = [], node_range_end = []\<rparr>"

definition get_tree_representation ::
  "(char \<Rightarrow> SGID) \<Rightarrow> (token_t \<Rightarrow> nat) \<Rightarrow> char list \<Rightarrow> error + tree_meta_t" where
  "get_tree_representation high_byte code input =
     tree_loop code (get_token_stream high_byte input)
       \<lparr>parent_stack = [], tree = empty_tree, node_id = 0\<rparr>"

text \<open>
  The invariant of the loop: every entry of the parent stack is the id of a node already
  emitted, and the level of that node is the number of entries below it.
\<close>

fun stack_ok :: "nat list \<Rightarrow> int \<Rightarrow> (int \<times> bool) list \<Rightarrow> bool" where
  "stack_ok levels n [] = True"
| "stack_ok levels n (e # st) =
     (0 \<le> fst e \<and> fst e < n \<and> levels ! nat (fst e) = length st \<and> stack_ok levels n st)"

definition forest_node :: "tree_meta_t \<Rightarrow> nat \<Rightarrow> bool" where
  "forest_node t i =
     (if parent_node_ids t ! i = parent_node_sentinel then node_levels t ! i = 0
      else 0 \<le> parent_node_ids t ! i \<and> parent_node_ids t ! i < int i \<and>
           node_levels t ! i = node_levels t ! nat (parent_node_ids t ! i) + 1)"

definition builder_inv :: "tree_builder \<Rightarrow> bool" where
  "builder_inv b =
     (0 \<le> node_id b \<and>
      length (parent_node_ids (tree b)) = nat (node_id b) \<and>
      length (node_levels (tree b)) = nat (node_id b) \<and>
      stack_ok (node_levels (tree b)) (node_id b) (parent_stack b) \<and>
      (\<forall>i < nat (node_id b). forest_node (tree b) i))"

text \<open>
  One numbering of the token enumerators, for evaluating the builder on concrete inputs: the
  position in the declaration of \<open>token_t\<close> above. The theorems on the builder hold for every
  numbering.
\<close>

fun declaration_order :: "token_t \<Rightarrow> nat" where
  "declaration_order TK_BOS = 0" | "declaration_order TK_BOL = 1" | "declaration_order TK_ERR = 2"
| "declaration_order TK_BST = 3" | "declaration_order TK_BOV = 4" | "declaration_order TK_EOL = 5"
| "declaration_order TK_EOS = 6" | "declaration_order TK_BFN = 7" | "declaration_order TK_POV = 8"
| "declaration_order TK_EST = 9" | "declaration_order TK_EFN = 10"

section \<open>Column Materializer: offsets\<close>

datatype json_col_t = StringColumn | ListColumn | StructColumn | Unknown


definition to_json_col_type :: "node_t \<Rightarrow> json_col_t" where
  "to_json_col_type category = (case category of
      NC_STRUCT \<Rightarrow> StructColumn | NC_LIST \<Rightarrow> ListColumn
    | NC_STR \<Rightarrow> StringColumn | NC_VAL \<Rightarrow> StringColumn | _ \<Rightarrow> Unknown)"






text \<open>\<^verbatim>\<open>thrust::inclusive_scan\<close> with a binary operator: the first output is the first input,
  every later output combines the output before it with the input at its place.\<close>

fun inclusive_scan_from :: "('a \<Rightarrow> 'a \<Rightarrow> 'a) \<Rightarrow> 'a \<Rightarrow> 'a list \<Rightarrow> 'a list" where
  "inclusive_scan_from f acc [] = []"
| "inclusive_scan_from f acc (x # xs) = f acc x # inclusive_scan_from f (f acc x) xs"

fun inclusive_scan :: "('a \<Rightarrow> 'a \<Rightarrow> 'a) \<Rightarrow> 'a list \<Rightarrow> 'a list" where
  "inclusive_scan f [] = []"
| "inclusive_scan f (x # xs) = x # inclusive_scan_from f x xs"


subsection \<open>The scatter passes and the scan of \<^verbatim>\<open>scatter_offsets\<close>\<close>











text \<open>
  The input \<^verbatim>\<open>[[1],[],[2,3]]\<close>: its node tree, and the buffers of its three columns (the outer
  list, the inner lists, the values) as \<^verbatim>\<open>initialize_json_columns\<close> leaves them. The column
  ids and row offsets of the nodes are 0 1 2 1 1 2 2 and 0 0 0 1 2 1 2.
\<close>

definition nested_lists_tree :: tree_meta_t where
  "nested_lists_tree =
     \<lparr>node_categories = [NC_LIST, NC_LIST, NC_VAL, NC_LIST, NC_LIST, NC_VAL, NC_VAL],
      parent_node_ids = [parent_node_sentinel, 0, 1, 0, 0, 4, 4],
      node_levels = [0, 1, 2, 1, 1, 2, 2],
      node_range_begin = [0, 1, 2, 5, 8, 9, 11],
      node_range_end = [1, 2, 3, 6, 9, 10, 12]\<rparr>"


section \<open>Device String/Type Caster: the sequential path\<close>

definition SINGLE_THREAD_THRESHOLD :: nat where "SINGLE_THREAD_THRESHOLD = 128"
definition WARP_THRESHOLD :: nat where "WARP_THRESHOLD = 1024"
definition UNICODE_SEQ :: char where "UNICODE_SEQ = CHR 0x7F"
definition NON_ESCAPE_CHAR :: char where "NON_ESCAPE_CHAR = CHR 0x7E"
definition UNICODE_HEX_DIGIT_COUNT :: nat where "UNICODE_HEX_DIGIT_COUNT = 4"
definition NUM_UNICODE_ESC_SEQ_CHARS :: nat where "NUM_UNICODE_ESC_SEQ_CHARS = 6"
definition UTF16_HIGH_SURROGATE_BEGIN :: int where "UTF16_HIGH_SURROGATE_BEGIN = 0xD800"
definition UTF16_HIGH_SURROGATE_END :: int where "UTF16_HIGH_SURROGATE_END = 0xDC00"
definition UTF16_LOW_SURROGATE_BEGIN :: int where "UTF16_LOW_SURROGATE_BEGIN = 0xDC00"
definition UTF16_LOW_SURROGATE_END :: int where "UTF16_LOW_SURROGATE_END = 0xE000"

definition backslash_char :: char where "backslash_char = CHR 0x5C"

datatype data_casting_result = PARSING_SUCCESS | PARSED_TO_NULL | PARSING_FAILURE

definition get_escape_char :: "char \<Rightarrow> char" where
  "get_escape_char escaped_char =
     (if escaped_char = CHR 0x22 then CHR 0x22
      else if escaped_char = CHR 0x5C then CHR 0x5C
      else if escaped_char = CHR ''/'' then CHR ''/''
      else if escaped_char = CHR ''b'' then CHR 0x08
      else if escaped_char = CHR ''f'' then CHR 0x0C
      else if escaped_char = CHR ''n'' then CHR 0x0A
      else if escaped_char = CHR ''r'' then CHR 0x0D
      else if escaped_char = CHR ''t'' then CHR 0x09
      else if escaped_char = CHR ''u'' then UNICODE_SEQ
      else NON_ESCAPE_CHAR)"

text \<open>The value of one hex digit, or \<open>None\<close> for any other character.\<close>

definition hex_digit :: "char \<Rightarrow> int option" where
  "hex_digit ch =
     (let c = (of_char ch :: nat)
      in if of_char CHR ''0'' \<le> c \<and> c \<le> of_char CHR ''9'' then Some (int c - int (of_char CHR ''0''))
         else if of_char CHR ''A'' \<le> c \<and> c \<le> of_char CHR ''F'' then Some (int c - int (of_char CHR ''A'') + 10)
         else if of_char CHR ''a'' \<le> c \<and> c \<le> of_char CHR ''f'' then Some (int c - int (of_char CHR ''a'') + 10)
         else None)"

text \<open>
  \<^verbatim>\<open>parse_unicode_hex\<close> reads the four characters at \<open>str\<close> from right to left and returns
  -1 at the first that is no hex digit. The argument is the input from \<open>str\<close> on; the callers
  that matter have four characters there.
\<close>

fun parse_unicode_hex_loop :: "char list \<Rightarrow> int \<Rightarrow> int \<Rightarrow> int" where
  "parse_unicode_hex_loop [] result base = result"
| "parse_unicode_hex_loop (ch # rest) result base =
     (case hex_digit ch of
        None \<Rightarrow> - 1
      | Some d \<Rightarrow> parse_unicode_hex_loop rest (result + d * base) (base * 16))"

definition parse_unicode_hex :: "char list \<Rightarrow> int" where
  "parse_unicode_hex str = parse_unicode_hex_loop (rev (take UNICODE_HEX_DIGIT_COUNT str)) 0 1"

record data_casting_result_info =
  bytes :: nat
  result :: data_casting_result

text \<open>
  The loop of \<^verbatim>\<open>process_string\<close> over the input left to read, with the escape flag and the
  bytes written so far. \<open>utf8\<close> stands for \<^verbatim>\<open>strings::detail::codepoint_to_utf8\<close> followed by
  \<^verbatim>\<open>from_char_utf8\<close> (cudf/strings/detail/utf8.hpp, not among the sources): the bytes of the
  UTF-8 encoding of a code point, whose number is what \<^verbatim>\<open>write_utf8_char\<close> returns.
\<close>

function process_string_loop ::
  "(int \<Rightarrow> char list) \<Rightarrow> bool \<Rightarrow> char list \<Rightarrow> char list \<Rightarrow> char list \<times> data_casting_result" where
  "process_string_loop utf8 escape [] out =
     (if escape then (out, PARSING_FAILURE) else (out, PARSING_SUCCESS))"
| "process_string_loop utf8 escape (c # rest) out =
     (if \<not> escape then
        (if c = backslash_char then process_string_loop utf8 True rest out
         else process_string_loop utf8 False rest (out @ [c]))
      else
        (let escaped_char = get_escape_char c
         in if escaped_char = NON_ESCAPE_CHAR then (out, PARSING_FAILURE)
            else if escaped_char \<noteq> UNICODE_SEQ
            then process_string_loop utf8 False rest (out @ [escaped_char])
            else if length rest < UNICODE_HEX_DIGIT_COUNT then (out, PARSING_FAILURE)
            else
              (let hex_val = parse_unicode_hex rest
               in if hex_val < 0 then (out, PARSING_FAILURE)
                  else
                    (let after = drop UNICODE_HEX_DIGIT_COUNT rest;
                         hex_low_val =
                           (if length after \<ge> NUM_UNICODE_ESC_SEQ_CHARS \<and>
                               after ! 0 = backslash_char \<and> after ! 1 = CHR ''u''
                            then parse_unicode_hex (drop 2 after) else 0)
                     in if hex_val \<ge> UTF16_HIGH_SURROGATE_BEGIN \<and> hex_val < UTF16_HIGH_SURROGATE_END \<and>
                           hex_low_val \<ge> UTF16_LOW_SURROGATE_BEGIN \<and> hex_low_val < UTF16_LOW_SURROGATE_END
                        then process_string_loop utf8 False (drop NUM_UNICODE_ESC_SEQ_CHARS after)
                               (out @ utf8 (0x10000 + (hex_val - UTF16_HIGH_SURROGATE_BEGIN) * 1024 +
                                            (hex_low_val - UTF16_LOW_SURROGATE_BEGIN)))
                        else process_string_loop utf8 False after (out @ utf8 hex_val)))))"
  by pat_completeness auto
termination
  by (relation "measure (\<lambda>(utf8, escape, inp, out). length inp)") auto

text \<open>
  \<^verbatim>\<open>process_string\<close>: the bytes written (all of them also when the buffer is null and only
  their number is kept) and the result.
\<close>

definition process_string ::
  "(int \<Rightarrow> char list) \<Rightarrow> char \<Rightarrow> bool \<Rightarrow> char list \<Rightarrow> char list \<times> data_casting_result" where
  "process_string utf8 quotechar keepquotes inp =
     (let num_in_chars = length inp;
          is_string_value =
            (num_in_chars \<ge> 2 \<and>
             (quotechar = CHR 0x00 \<or> (hd inp = quotechar \<and> last inp = quotechar)))
      in if \<not> is_string_value then (inp, PARSING_SUCCESS)
         else process_string_loop utf8 False
                (if \<not> keepquotes then butlast (tl inp) else inp) [])"

subsection \<open>One row of the batch\<close>

text \<open>
  Modelled from the spec: \<^verbatim>\<open>strings::detail::codepoint_to_utf8\<close>, \<^verbatim>\<open>from_char_utf8\<close> and
  \<^verbatim>\<open>bytes_in_char_utf8\<close> (cudf/strings/detail/utf8.hpp) are not among the sources. The bytes
  of the UTF-8 encoding of a code point, one to four, and none above 0x10FFFF. The functions
  of the caster take the encoder as the parameter \<open>utf8\<close>; this one is for evaluation.
\<close>

definition utf8_encode :: "int \<Rightarrow> char list" where
  "utf8_encode cp =
     (if cp < 0x80 then [char_of cp]
      else if cp < 0x800 then [char_of (0xC0 + cp div 64), char_of (0x80 + cp mod 64)]
      else if cp < 0x10000
      then [char_of (0xE0 + cp div 4096), char_of (0x80 + (cp div 64) mod 64),
            char_of (0x80 + cp mod 64)]
      else if cp < 0x110000
      then [char_of (0xF0 + cp div 262144), char_of (0x80 + (cp div 4096) mod 64),
            char_of (0x80 + (cp div 64) mod 64), char_of (0x80 + cp mod 64)]
      else [])"

text \<open>
  The buffers one pass of the caster works on: the validity mask (absent when the pointer is
  null), the null counter, the sizes or offsets of the rows, and the characters (absent in
  the size-only pass, where the pointer is null).
\<close>

record caster_buffers =
  null_mask :: "bool list option"
  null_count :: nat
  d_offsets :: "nat list"
  d_chars :: "char list option"

record parse_options =
  quotechar :: char
  keepquotes :: bool
  trie_na :: "char list \<Rightarrow> bool"

text \<open>The bytes written one after the other from a position of the character buffer.\<close>

fun write_bytes :: "nat \<Rightarrow> char list \<Rightarrow> char list \<Rightarrow> char list" where
  "write_bytes pos [] buf = buf"
| "write_bytes pos (b # bs) buf = write_bytes (Suc pos) bs (buf[pos := b])"

definition clear_row :: "nat \<Rightarrow> caster_buffers \<Rightarrow> caster_buffers" where
  "clear_row idx s =
     (case null_mask s of
        None \<Rightarrow> s
      | Some m \<Rightarrow> s\<lparr>null_mask := Some (m[idx := False]), null_count := null_count s + 1\<rparr>)"

definition set_size :: "nat \<Rightarrow> nat \<Rightarrow> caster_buffers \<Rightarrow> caster_buffers" where
  "set_size idx n s = (if d_chars s = None then s\<lparr>d_offsets := (d_offsets s)[idx := n]\<rparr> else s)"

definition row_is_null :: "caster_buffers \<Rightarrow> nat \<Rightarrow> bool" where
  "row_is_null s idx = (case null_mask s of None \<Rightarrow> False | Some m \<Rightarrow> \<not> m ! idx)"

text \<open>
  \<^verbatim>\<open>string_parse::operator()\<close> for the row \<open>idx\<close>. \<^verbatim>\<open>process_string\<close> writes its bytes into the
  character buffer at the offset of the row as it goes, also when it then fails.
\<close>

definition string_parse ::
  "(int \<Rightarrow> char list) \<Rightarrow> parse_options \<Rightarrow> char list list \<Rightarrow> nat \<Rightarrow>
   caster_buffers \<Rightarrow> caster_buffers" where
  "string_parse utf8 options str_tuples idx s =
     (if row_is_null s idx then set_size idx 0 s
      else
        (let inp = str_tuples ! idx;
             is_null_literal = (d_chars s = None \<and> trie_na options inp)
         in if is_null_literal \<and> null_mask s \<noteq> None then set_size idx 0 (clear_row idx s)
            else
              (let str_process_info = process_string utf8 (quotechar options) (keepquotes options) inp;
                   s1 = (case d_chars s of
                           None \<Rightarrow> s
                         | Some buf \<Rightarrow>
                             s\<lparr>d_chars := Some (write_bytes (d_offsets s ! idx) (fst str_process_info) buf)\<rparr>)
               in if snd str_process_info \<noteq> PARSING_SUCCESS then set_size idx 0 (clear_row idx s1)
                  else set_size idx (length (fst str_process_info)) s1)))"


text \<open>The characters between the quotes of a string value, which \<^verbatim>\<open>process_string\<close> unescapes.\<close>

definition is_string_value :: "parse_options \<Rightarrow> char list \<Rightarrow> bool" where
  "is_string_value options inp =
     (length inp \<ge> 2 \<and>
      (quotechar options = CHR 0x00 \<or> (hd inp = quotechar options \<and> last inp = quotechar options)))"

definition string_content :: "parse_options \<Rightarrow> char list \<Rightarrow> char list" where
  "string_content options inp = (if \<not> keepquotes options then butlast (tl inp) else inp)"

subsection \<open>The warp- and block-parallel path\<close>

definition warp_size :: nat where "warp_size = 32"

text \<open>
  The state table of the backslash scan: the state reached from "not a slash" and the state
  reached from "slash", where the state "slash" is that of an escaping backslash.
\<close>

type_synonym state_table = "bool \<times> bool"

definition state_of :: "state_table \<Rightarrow> bool \<Rightarrow> bool" where
  "state_of tbl s = (if s then snd tbl else fst tbl)"

definition composite_op :: "state_table \<Rightarrow> state_table \<Rightarrow> state_table" where
  "composite_op op1 op2 = (state_of op2 (fst op1), state_of op2 (snd op1))"

definition is_hex :: "char \<Rightarrow> bool" where
  "is_hex ch =
     (let c = (of_char ch :: nat)
      in (of_char CHR ''0'' \<le> c \<and> c \<le> of_char CHR ''9'') \<or>
         (of_char CHR ''A'' \<le> c \<and> c \<le> of_char CHR ''F'') \<or>
         (of_char CHR ''a'' \<le> c \<and> c \<le> of_char CHR ''f''))"

text \<open>The character of a lane and the one before it; a lane past the end of the string reads
  the zero character for both.\<close>

definition lane_char :: "char list \<Rightarrow> nat \<Rightarrow> char" where
  "lane_char inp char_index = (if char_index < length inp then inp ! char_index else CHR 0x00)"

definition lane_prev :: "char list \<Rightarrow> nat \<Rightarrow> char" where
  "lane_prev inp char_index =
     (if char_index > 0 \<and> char_index < length inp then inp ! (char_index - 1) else CHR 0x00)"

definition curr_table :: "char list \<Rightarrow> nat \<Rightarrow> state_table" where
  "curr_table inp char_index =
     (char_index < length inp \<and> lane_char inp char_index = backslash_char, False)"

text \<open>
  The error flag of a lane, given whether its character is an escaping backslash. The four
  characters after a \<open>u\<close> are read only after the test that they lie inside the string has
  decided the flag.
\<close>

definition lane_error :: "char list \<Rightarrow> nat \<Rightarrow> bool \<Rightarrow> bool" where
  "lane_error inp char_index is_escaping_backslash =
     (let c = lane_char inp char_index; prev_c = lane_prev inp char_index;
          escaped_char = get_escape_char c
      in char_index < length inp \<and>
         ((is_escaping_backslash \<and> char_index = length inp - 1) \<or>
          (prev_c = backslash_char \<and> escaped_char = NON_ESCAPE_CHAR) \<or>
          (prev_c = backslash_char \<and> c = CHR ''u'' \<and>
             (char_index + UNICODE_HEX_DIGIT_COUNT \<ge> length inp \<or>
              \<not> is_hex (inp ! (char_index + 1)) \<or> \<not> is_hex (inp ! (char_index + 2)) \<or>
              \<not> is_hex (inp ! (char_index + 3)) \<or> \<not> is_hex (inp ! (char_index + 4))))))"

definition lane_skip :: "char list \<Rightarrow> nat \<Rightarrow> bool \<Rightarrow> bool" where
  "lane_skip inp char_index is_escaping_backslash =
     (\<not> char_index < length inp \<or> is_escaping_backslash \<or>
      (char_index \<ge> 2 \<and> inp ! (char_index - 2) = backslash_char \<and> inp ! (char_index - 1) = CHR ''u'') \<or>
      (char_index \<ge> 3 \<and> inp ! (char_index - 3) = backslash_char \<and> inp ! (char_index - 2) = CHR ''u'') \<or>
      (char_index \<ge> 4 \<and> inp ! (char_index - 4) = backslash_char \<and> inp ! (char_index - 3) = CHR ''u'') \<or>
      (char_index \<ge> 5 \<and> inp ! (char_index - 5) = backslash_char \<and> inp ! (char_index - 4) = CHR ''u''))"

text \<open>The bytes a lane writes (\<^verbatim>\<open>this_num_out\<close> is their number): none when it skips.\<close>

definition lane_out :: "(int \<Rightarrow> char list) \<Rightarrow> char list \<Rightarrow> nat \<Rightarrow> bool \<Rightarrow> char list" where
  "lane_out utf8 inp char_index is_escaping_backslash =
     (let c = lane_char inp char_index; prev_c = lane_prev inp char_index;
          escaped_char = get_escape_char c
      in if lane_skip inp char_index is_escaping_backslash then []
         else if prev_c \<noteq> backslash_char then [c]
         else if escaped_char \<noteq> UNICODE_SEQ then [escaped_char]
         else
           (let hex_val = parse_unicode_hex (drop (char_index + 1) inp);
                hex_low_val =
                  (if char_index + 4 + 6 < length inp \<and>
                      inp ! (char_index + 1 + 4) = backslash_char \<and>
                      inp ! (char_index + 1 + 5) = CHR ''u''
                   then parse_unicode_hex (drop (char_index + 1 + 6) inp) else 0)
            in if hex_val \<ge> UTF16_HIGH_SURROGATE_BEGIN \<and> hex_val < UTF16_HIGH_SURROGATE_END \<and>
                  hex_low_val \<ge> UTF16_LOW_SURROGATE_BEGIN \<and> hex_low_val < UTF16_LOW_SURROGATE_END
               then utf8 (0x10000 + (hex_val - UTF16_HIGH_SURROGATE_BEGIN) * 1024 +
                          (hex_low_val - UTF16_LOW_SURROGATE_BEGIN))
               else if hex_val \<ge> UTF16_LOW_SURROGATE_BEGIN \<and> hex_val < UTF16_LOW_SURROGATE_END
               then []
               else utf8 hex_val))"

text \<open>
  The escaping-backslash flags of the lanes of chunk \<open>k\<close>: the inclusive scan of the state
  tables under the composition, read at the state carried in from the chunk before.
\<close>

definition chunk_flags :: "char list \<Rightarrow> nat \<Rightarrow> nat \<Rightarrow> bool \<Rightarrow> bool list" where
  "chunk_flags inp BLOCK_SIZE k init_state =
     map (\<lambda>scanned. state_of scanned init_state)
       (inclusive_scan composite_op
          (map (curr_table inp) [k * BLOCK_SIZE ..< k * BLOCK_SIZE + BLOCK_SIZE]))"

text \<open>
  The loop over the chunks of \<open>BLOCK_SIZE\<close> characters, with the state carried between the
  chunks and the bytes written so far: an error in a lane of a chunk ends the loop, otherwise
  the lanes write their bytes one after the other. The result is the bytes written and
  whether the loop ended in an error.
\<close>

fun chunk_loop ::
  "(int \<Rightarrow> char list) \<Rightarrow> char list \<Rightarrow> nat \<Rightarrow> nat list \<Rightarrow> bool \<Rightarrow> char list \<Rightarrow> char list \<times> bool" where
  "chunk_loop utf8 inp BLOCK_SIZE [] init_state out = (out, False)"
| "chunk_loop utf8 inp BLOCK_SIZE (k # ks) init_state out =
     (let lanes = [k * BLOCK_SIZE ..< k * BLOCK_SIZE + BLOCK_SIZE];
          flags = chunk_flags inp BLOCK_SIZE k init_state;
          error = (\<exists>l \<in> set (zip lanes flags). lane_error inp (fst l) (snd l))
      in if error then (out, True)
         else chunk_loop utf8 inp BLOCK_SIZE ks (last flags)
                (out @ concat (map (\<lambda>l. lane_out utf8 inp (fst l) (snd l)) (zip lanes flags))))"

text \<open>
  The body of the grid-stride loop of \<^verbatim>\<open>parse_fn_string_parallel\<close> for the row \<open>istring\<close>, in
  the instantiation for one warp per string (\<open>is_warp\<close>) or one block per string.
\<close>

definition parse_fn_string_parallel ::
  "bool \<Rightarrow> nat \<Rightarrow> (int \<Rightarrow> char list) \<Rightarrow> parse_options \<Rightarrow> char list list \<Rightarrow> nat \<Rightarrow>
   caster_buffers \<Rightarrow> caster_buffers" where
  "parse_fn_string_parallel is_warp num_warps utf8 options str_tuples istring s =
     (let BLOCK_SIZE = (if is_warp then warp_size else warp_size * num_warps)
      in if row_is_null s istring then set_size istring 0 s
         else
           (let inp = str_tuples ! istring; num_in_chars = length inp
            in if is_warp \<and> num_in_chars > WARP_THRESHOLD then s
               else if \<not> is_warp \<and> num_in_chars \<le> WARP_THRESHOLD then s
               else
                 (let is_null_literal = (d_chars s = None \<and> trie_na options inp)
                  in if is_null_literal \<and> null_mask s \<noteq> None
                     then set_size istring 0 (clear_row istring s)
                     else if \<not> is_string_value options inp
                     then (case d_chars s of
                             None \<Rightarrow> s\<lparr>d_offsets := (d_offsets s)[istring := num_in_chars]\<rparr>
                           | Some buf \<Rightarrow>
                               s\<lparr>d_chars := Some (write_bytes (d_offsets s ! istring) inp buf)\<rparr>)
                     else
                       (let content = string_content options inp;
                            r = chunk_loop utf8 content BLOCK_SIZE
                                  [0 ..< (length content + BLOCK_SIZE - 1) div BLOCK_SIZE] False [];
                            s1 = (case d_chars s of
                                    None \<Rightarrow> s
                                  | Some buf \<Rightarrow>
                                      s\<lparr>d_chars := Some (write_bytes (d_offsets s ! istring) (fst r) buf)\<rparr>)
                        in if snd r then set_size istring 0 (clear_row istring s1)
                           else set_size istring (length (fst r)) s1))))"





text \<open>
  For evaluation: the options with the double quote as quote character, quotes stripped and
  the null literals \<^verbatim>\<open>null\<close> and the empty span; and the buffers of a size-only pass over a
  batch of one valid row.
\<close>

definition null_literals :: "char list \<Rightarrow> bool" where
  "null_literals span = (span = [] \<or> span = ''null'')"

definition json_string_options :: parse_options where
  "json_string_options = \<lparr>quotechar = CHR 0x22, keepquotes = False, trie_na = null_literals\<rparr>"

definition one_valid_row :: caster_buffers where
  "one_valid_row = \<lparr>null_mask = Some [True], null_count = 0, d_offsets = [0], d_chars = None\<rparr>"

section \<open>From the root column to the table\<close>









section \<open>Properties of the category unification\<close>

lemma col_category_op_commute: "col_category_op a b = col_category_op b a"
  by (cases a; cases b) (simp_all add: col_category_op_def)

lemma col_category_op_assoc:
  "col_category_op (col_category_op a b) c = col_category_op a (col_category_op b c)"
  by (cases a; cases b; cases c) (simp_all add: col_category_op_def)

lemma col_category_op_idem: "col_category_op a a = a"
  by (simp add: col_category_op_def)

lemma max_row_offsets_col_categories_op_eq:
  "max_row_offsets_col_categories_op a b =
     (max (fst a) (fst b), col_category_op (snd a) (snd b))"
  by (simp add: max_row_offsets_col_categories_op_def col_category_op_def Let_def)

text \<open>
  Claim C1. The unification operator of the Column Tree Reducer, as a table: equal categories
  unify to themselves; a leaf (String, Value) with a nested category (Struct, List) gives the
  nested category, on either side; a leaf with the field-name category gives Error; String
  with Value gives String; every other pair of distinct categories gives Error.
\<close>

theorem col_category_op_table:
  "(\<forall>a. col_category_op a a = a) \<and>
   col_category_op NC_STR NC_STRUCT = NC_STRUCT \<and>
   col_category_op NC_STR NC_LIST = NC_LIST \<and>
   col_category_op NC_VAL NC_STRUCT = NC_STRUCT \<and>
   col_category_op NC_VAL NC_LIST = NC_LIST \<and>
   col_category_op NC_STRUCT NC_STR = NC_STRUCT \<and>
   col_category_op NC_LIST NC_STR = NC_LIST \<and>
   col_category_op NC_STRUCT NC_VAL = NC_STRUCT \<and>
   col_category_op NC_LIST NC_VAL = NC_LIST \<and>
   col_category_op NC_STR NC_FN = NC_ERR \<and>
   col_category_op NC_VAL NC_FN = NC_ERR \<and>
   col_category_op NC_FN NC_STR = NC_ERR \<and>
   col_category_op NC_FN NC_VAL = NC_ERR \<and>
   col_category_op NC_STR NC_VAL = NC_STR \<and>
   col_category_op NC_VAL NC_STR = NC_STR \<and>
   col_category_op NC_STRUCT NC_LIST = NC_ERR \<and>
   col_category_op NC_STRUCT NC_FN = NC_ERR \<and>
   col_category_op NC_STRUCT NC_ERR = NC_ERR \<and>
   col_category_op NC_LIST NC_STRUCT = NC_ERR \<and>
   col_category_op NC_LIST NC_FN = NC_ERR \<and>
   col_category_op NC_LIST NC_ERR = NC_ERR \<and>
   col_category_op NC_FN NC_STRUCT = NC_ERR \<and>
   col_category_op NC_FN NC_LIST = NC_ERR \<and>
   col_category_op NC_FN NC_ERR = NC_ERR \<and>
   col_category_op NC_STR NC_ERR = NC_ERR \<and>
   col_category_op NC_VAL NC_ERR = NC_ERR \<and>
   col_category_op NC_ERR NC_STRUCT = NC_ERR \<and>
   col_category_op NC_ERR NC_LIST = NC_ERR \<and>
   col_category_op NC_ERR NC_FN = NC_ERR \<and>
   col_category_op NC_ERR NC_STR = NC_ERR \<and>
   col_category_op NC_ERR NC_VAL = NC_ERR"
  by (simp add: col_category_op_def)

text \<open>
  A left-to-right fold of the merge over the run agrees with every grouping of that run.
\<close>

lemma fold_col_category_op_grouping:
  "fold col_category_op (run_values t) a = col_category_op a (reduce_grouping col_category_op t)"
proof (induction t arbitrary: a)
  case (Single x)
  show ?case by (simp add: col_category_op_commute)
next
  case (Combine l r)
  then show ?case by (simp add: col_category_op_assoc)
qed

lemma fold_col_category_op_permuted:
  assumes "mset xs = mset ys"
  shows "fold col_category_op xs = fold col_category_op ys"
proof (rule fold_multiset_equiv [OF _ assms])
  fix x y
  show "col_category_op x \<circ> col_category_op y = col_category_op y \<circ> col_category_op x"
  proof
    fix a
    have "col_category_op x (col_category_op y a) = col_category_op (col_category_op x y) a"
      by (simp add: col_category_op_assoc)
    also have "\<dots> = col_category_op (col_category_op y x) a"
      by (simp add: col_category_op_commute)
    also have "\<dots> = col_category_op y (col_category_op x a)"
      by (simp add: col_category_op_assoc)
    finally show "(col_category_op x \<circ> col_category_op y) a = (col_category_op y \<circ> col_category_op x) a"
      by simp
  qed
qed

lemma reduce_grouping_permuted:
  assumes "mset (run_values t1) = mset (run_values t2)"
  shows "reduce_grouping col_category_op t1 = reduce_grouping col_category_op t2"
proof -
  let ?r1 = "reduce_grouping col_category_op t1"
  let ?r2 = "reduce_grouping col_category_op t2"
  have eq: "col_category_op a ?r1 = col_category_op a ?r2" for a
    using fold_col_category_op_permuted [OF assms]
    by (metis fold_col_category_op_grouping)
  have "?r1 = col_category_op ?r1 ?r1" by (simp add: col_category_op_idem)
  also have "\<dots> = col_category_op ?r1 ?r2" by (rule eq)
  also have "\<dots> = col_category_op ?r2 ?r1" by (rule col_category_op_commute)
  also have "\<dots> = col_category_op ?r2 ?r2" by (simp add: eq)
  also have "\<dots> = ?r2" by (simp add: col_category_op_idem)
  finally show ?thesis .
qed

text \<open>
  Claim C2. The unification operator is commutative and associative, and the reduction of a
  run of categories gives the same category for every permutation of the run and every
  grouping of the combinations. The operator on (row offset, category) pairs of
  \<^verbatim>\<open>max_row_offsets_col_categories\<close> is commutative and associative as well.
\<close>

theorem col_category_op_order_independent:
  "(\<forall>a b. col_category_op a b = col_category_op b a) \<and>
   (\<forall>a b c. col_category_op (col_category_op a b) c = col_category_op a (col_category_op b c)) \<and>
   (\<forall>p q. max_row_offsets_col_categories_op p q = max_row_offsets_col_categories_op q p) \<and>
   (\<forall>p q r. max_row_offsets_col_categories_op (max_row_offsets_col_categories_op p q) r =
      max_row_offsets_col_categories_op p (max_row_offsets_col_categories_op q r)) \<and>
   (\<forall>t1 t2. mset (run_values t1) = mset (run_values t2) \<longrightarrow>
      reduce_grouping col_category_op t1 = reduce_grouping col_category_op t2)"
proof (intro conjI allI impI)
  fix a b c :: node_t
  show "col_category_op a b = col_category_op b a"
    by (rule col_category_op_commute)
  show "col_category_op (col_category_op a b) c = col_category_op a (col_category_op b c)"
    by (rule col_category_op_assoc)
next
  fix p q r :: "int \<times> node_t"
  show "max_row_offsets_col_categories_op p q = max_row_offsets_col_categories_op q p"
    unfolding max_row_offsets_col_categories_op_eq
    using col_category_op_commute [of "snd p" "snd q"] by (simp add: max.commute)
  show "max_row_offsets_col_categories_op (max_row_offsets_col_categories_op p q) r =
      max_row_offsets_col_categories_op p (max_row_offsets_col_categories_op q r)"
    unfolding max_row_offsets_col_categories_op_eq
    using col_category_op_assoc [of "snd p" "snd q" "snd r"] by (simp add: max.assoc)
next
  fix t1 t2 :: "node_t grouping"
  assume "mset (run_values t1) = mset (run_values t2)"
  then show "reduce_grouping col_category_op t1 = reduce_grouping col_category_op t2"
    by (rule reduce_grouping_permuted)
qed

theorem col_category_op_order_independent_witness:
  "mset (run_values (Combine (Single NC_VAL) (Combine (Single NC_STR) (Single NC_STRUCT)))) =
     mset (run_values (Combine (Combine (Single NC_STRUCT) (Single NC_VAL)) (Single NC_STR))) \<and>
   reduce_grouping col_category_op (Combine (Single NC_VAL) (Combine (Single NC_STR) (Single NC_STRUCT))) =
     reduce_grouping col_category_op (Combine (Combine (Single NC_STRUCT) (Single NC_VAL)) (Single NC_STR)) \<and>
   reduce_grouping col_category_op (Combine (Combine (Single NC_STRUCT) (Single NC_VAL)) (Single NC_STR)) = NC_STRUCT"
proof -
  have m: "mset (run_values (Combine (Single NC_VAL) (Combine (Single NC_STR) (Single NC_STRUCT)))) =
     mset (run_values (Combine (Combine (Single NC_STRUCT) (Single NC_VAL)) (Single NC_STR)))"
    by simp
  have "reduce_grouping col_category_op (Combine (Single NC_VAL) (Combine (Single NC_STR) (Single NC_STRUCT))) =
     reduce_grouping col_category_op (Combine (Combine (Single NC_STRUCT) (Single NC_VAL)) (Single NC_STR))"
    using col_category_op_order_independent m by blast
  moreover have "reduce_grouping col_category_op (Combine (Combine (Single NC_STRUCT) (Single NC_VAL)) (Single NC_STR)) = NC_STRUCT"
    by (simp add: col_category_op_def)
  ultimately show ?thesis using m by blast
qed

section \<open>Properties of the tokenizing automaton\<close>

lemma pda_error_entry_emits_error_token:
  "s \<noteq> PD_ERR \<Longrightarrow> pda_next_state s st sg = PD_ERR \<Longrightarrow> pda_emitted s st sg = [TK_ERR]"
  by (cases s; cases st; cases sg)
     (simp_all add: pda_next_state_def pda_emitted_def pda_sgid_def NUM_PDA_INPUT_SGS_def)

text \<open>
  Claim C6, as the tables have it. From the Error state every symbol group under every stack
  context leads back to the Error state, and the transition emits no token: the single
  Error token of a document is emitted by the transition that enters the Error state.
\<close>

theorem pda_error_state_sticky:
  "pda_next_state PD_ERR st sg = PD_ERR \<and> pda_emitted PD_ERR st sg = []"
  by (cases st; cases sg)
     (simp_all add: pda_next_state_def pda_emitted_def pda_sgid_def NUM_PDA_INPUT_SGS_def)

text \<open>
  Claim C6 as stated asks for Error tokens on the transitions out of the Error state; the
  cell for a character of the group "other" read at the root emits nothing.
\<close>

theorem pda_error_state_emits_nothing:
  "\<not> (pda_next_state PD_ERR STACK_ROOT OTR = PD_ERR \<and>
      TK_ERR \<in> set (pda_emitted PD_ERR STACK_ROOT OTR))"
  by (simp add: pda_next_state_def pda_emitted_def pda_sgid_def NUM_PDA_INPUT_SGS_def)

section \<open>The forest invariant of the Node Tree Builder\<close>


lemma stack_ok_tl: "stack_ok levels n st \<Longrightarrow> stack_ok levels n (tl st)"
  by (cases st) auto

lemma stack_ok_append:
  "stack_ok levels n st \<Longrightarrow> n \<le> int (length levels) \<Longrightarrow> n \<le> m \<Longrightarrow> stack_ok (levels @ ls) m st"
  by (induction st) (auto simp: nth_append)

lemma modify_stack_ok:
  assumes "stack_ok levels n st" and "modify_stack token nid st = Inr st'"
    and "token = TK_BFN \<or> does_push token \<Longrightarrow> 0 \<le> nid \<and> nid < n \<and> levels ! nat nid = length st"
  shows "stack_ok levels n st'"
proof (cases "token = TK_BFN")
  case True
  with assms show ?thesis by (auto simp: modify_stack_def)
next
  case False
  define st1 where "st1 = (if does_push token then (nid, False) # st else if does_pop token then tl st else st)"
  have ok1: "stack_ok levels n st1"
    using assms(1,3) by (auto simp: st1_def stack_ok_tl)
  have "st' = (if length st1 \<ge> 1 \<and> snd (hd st1) then tl st1 else st1)"
    using assms(2) False by (auto simp: modify_stack_def st1_def split: if_splits)
  then show ?thesis using ok1 by (auto simp: stack_ok_tl)
qed

lemma forest_node_emit:
  assumes "i < length (parent_node_ids t)" "length (node_levels t) = length (parent_node_ids t)"
    "forest_node t i"
  shows "forest_node (emit_node token p l rb re t) i"
  using assms by (auto simp: forest_node_def emit_node_def nth_append split: if_splits)

lemma forest_node_new:
  assumes "length (node_levels t) = length (parent_node_ids t)"
    and "stack_ok (node_levels t) (int (length (parent_node_ids t))) st"
  shows "forest_node (emit_node token (if length st > 0 then fst (hd st) else parent_node_sentinel)
            (length st) rb re t) (length (parent_node_ids t))"
proof (cases st)
  case Nil
  then show ?thesis using assms(1) by (simp add: forest_node_def emit_node_def nth_append)
next
  case (Cons e st')
  with assms show ?thesis
    by (auto simp: forest_node_def emit_node_def nth_append parent_node_sentinel_def)
qed

lemma builder_inv_step:
  assumes inv: "builder_inv b"
    and ms: "modify_stack token (node_id b) (parent_stack b) = Inr st"
  shows "builder_inv \<lparr>parent_stack = st,
           tree = (if is_node token
                   then emit_node token
                          (if length (parent_stack b) > 0 then fst (hd (parent_stack b))
                           else parent_node_sentinel)
                          (length (parent_stack b)) rb re (tree b)
                   else tree b),
           node_id = (if is_node token then node_id b + 1 else node_id b)\<rparr>"
proof (cases "is_node token")
  case False
  then have "\<not> (token = TK_BFN \<or> does_push token)"
    by (auto simp: is_node_def does_push_def split: token_t.splits)
  with modify_stack_ok [OF _ ms] inv have "stack_ok (node_levels (tree b)) (node_id b) st"
    by (auto simp: builder_inv_def)
  with inv False show ?thesis by (simp add: builder_inv_def)
next
  case True
  let ?t = "emit_node token
              (if length (parent_stack b) > 0 then fst (hd (parent_stack b)) else parent_node_sentinel)
              (length (parent_stack b)) rb re (tree b)"
  from inv have n0: "0 \<le> node_id b"
    and lp: "length (parent_node_ids (tree b)) = nat (node_id b)"
    and ll: "length (node_levels (tree b)) = nat (node_id b)"
    and so: "stack_ok (node_levels (tree b)) (node_id b) (parent_stack b)"
    and fo: "\<forall>i < nat (node_id b). forest_node (tree b) i"
    by (auto simp: builder_inv_def)
  have levels: "node_levels ?t = node_levels (tree b) @ [length (parent_stack b)]"
    by (simp add: emit_node_def)
  have so': "stack_ok (node_levels ?t) (node_id b + 1) (parent_stack b)"
    unfolding levels using stack_ok_append [OF so, of "node_id b + 1" "[length (parent_stack b)]"] ll n0
    by simp
  have "stack_ok (node_levels ?t) (node_id b + 1) st"
  proof (rule modify_stack_ok [OF so' ms])
    show "0 \<le> node_id b \<and> node_id b < node_id b + 1 \<and>
          node_levels ?t ! nat (node_id b) = length (parent_stack b)"
      using n0 ll by (simp add: emit_node_def nth_append)
  qed
  moreover have "\<forall>i < nat (node_id b + 1). forest_node ?t i"
  proof (intro allI impI)
    fix i assume "i < nat (node_id b + 1)"
    then consider "i < nat (node_id b)" | "i = nat (node_id b)" using n0 by linarith
    then show "forest_node ?t i"
    proof cases
      case 1
      then show ?thesis using fo lp ll by (intro forest_node_emit) auto
    next
      case 2
      have "stack_ok (node_levels (tree b)) (int (length (parent_node_ids (tree b)))) (parent_stack b)"
        using so lp n0 by simp
      from forest_node_new [OF _ this, of token rb re] show ?thesis
        using lp ll 2 by simp
    qed
  qed
  moreover have "length (parent_node_ids ?t) = nat (node_id b + 1)"
    "length (node_levels ?t) = nat (node_id b + 1)"
    using lp ll n0 by (simp_all add: emit_node_def nat_add_distrib)
  ultimately show ?thesis using True n0 by (simp add: builder_inv_def)
qed

lemma tree_loop_inv:
  "builder_inv b \<Longrightarrow> tree_loop code ts b = Inr t \<Longrightarrow>
     length (node_levels t) = length (parent_node_ids t) \<and>
     (\<forall>i < length (parent_node_ids t). forest_node t i)"
proof (induction code ts b rule: tree_loop.induct)
  case (1 code b)
  then show ?case by (auto simp: builder_inv_def)
next
  case (2 code token token_index rest b)
  from "2.prems"(2) obtain st where
    ms: "modify_stack token (node_id b) (parent_stack b) = Inr st"
    by (auto simp: Let_def split: sum.splits)
  note inv' = builder_inv_step [OF "2.prems"(1) ms]
  show ?case
    using "2.prems"(2) ms
    by (auto simp: Let_def intro!: "2.IH" [OF refl refl refl refl refl _ inv'] split: if_splits)
qed


text \<open>
  Claim C3, as the builder has it. On every input on which \<^verbatim>\<open>get_tree_representation\<close>
  returns, whatever its bytes, the group read for a byte of 128 or more and the numbering of
  the tokens, every node id \<open>i\<close> either has the sentinel as parent and level 0, or has a parent
  id below \<open>i\<close> whose level is one less than its own; the level and parent arrays have one
  entry per node, and node 0 has the sentinel parent. The number of nodes with the sentinel
  parent is not bounded by one.
\<close>

theorem get_tree_representation_forest:
  assumes "get_tree_representation high_byte code input = Inr t"
    and "i < length (parent_node_ids t)"
  shows "length (node_levels t) = length (parent_node_ids t) \<and>
         parent_node_ids t ! 0 = parent_node_sentinel \<and>
         (if parent_node_ids t ! i = parent_node_sentinel then node_levels t ! i = 0
          else 0 \<le> parent_node_ids t ! i \<and> parent_node_ids t ! i < int i \<and>
               node_levels t ! i = node_levels t ! nat (parent_node_ids t ! i) + 1)"
proof -
  from assms(1) obtain tokens where
    run: "tree_loop code tokens \<lparr>parent_stack = [], tree = empty_tree, node_id = 0\<rparr> = Inr t"
    by (auto simp: get_tree_representation_def)
  have "builder_inv \<lparr>parent_stack = [], tree = empty_tree, node_id = 0\<rparr>"
    by (simp add: builder_inv_def empty_tree_def)
  from tree_loop_inv [OF this run]
  have len: "length (node_levels t) = length (parent_node_ids t)"
    and all: "\<forall>i < length (parent_node_ids t). forest_node t i"
    by blast+
  from all assms(2) have i: "forest_node t i" by blast
  from assms(2) have "0 < length (parent_node_ids t)" by (cases "parent_node_ids t") auto
  with all have "forest_node t 0" by blast
  then have "parent_node_ids t ! 0 = parent_node_sentinel"
    by (auto simp: forest_node_def split: if_splits)
  with len i show ?thesis by (simp add: forest_node_def)
qed

theorem get_tree_representation_forest_witness:
  "get_tree_representation clamped_high_byte declaration_order ''[{\"a\":1}]'' =
     Inr \<lparr>node_categories = [NC_LIST, NC_STRUCT, NC_FN, NC_VAL],
          parent_node_ids = [parent_node_sentinel, 0, 1, 2],
          node_levels = [0, 1, 2, 3],
          node_range_begin = [0, 1, 3, 6], node_range_end = [1, 2, 4, 7]\<rparr> \<and>
   (3::nat) < length [parent_node_sentinel, 0, 1, 2] \<and>
   [parent_node_sentinel, 0, 1, 2::int] ! 3 \<noteq> parent_node_sentinel \<and>
   [parent_node_sentinel, 0, 1, 2::int] ! 3 < int 3 \<and>
   [0, 1, 2, 3::nat] ! 3 = [0, 1, 2, 3::nat] ! nat ([parent_node_sentinel, 0, 1, 2::int] ! 3) + 1"
proof -
  let ?t = "\<lparr>node_categories = [NC_LIST, NC_STRUCT, NC_FN, NC_VAL],
          parent_node_ids = [parent_node_sentinel, 0, 1, 2],
          node_levels = [0, 1, 2, 3],
          node_range_begin = [0, 1, 3, 6], node_range_end = [1, 2, 4, 7]\<rparr>"
  have r: "get_tree_representation clamped_high_byte declaration_order ''[{\"a\":1}]'' = Inr ?t"
    by code_simp
  have l: "3 < length (parent_node_ids ?t)" by simp
  from get_tree_representation_forest [OF r l] r show ?thesis
    by (simp add: parent_node_sentinel_def)
qed

text \<open>
  Claim C3 as stated asks for exactly one node with the sentinel parent. The input
  \<^verbatim>\<open>[] [\<close> is tokenized to a list begin, a list end and an error token; the builder returns
  and both nodes, the list and the error node, have the sentinel parent.
\<close>

theorem get_tree_representation_two_roots:
  "get_tree_representation clamped_high_byte declaration_order ''[] ['' =
     Inr \<lparr>node_categories = [NC_LIST, NC_ERR],
          parent_node_ids = [parent_node_sentinel, parent_node_sentinel],
          node_levels = [0, 0], node_range_begin = [0, 3], node_range_end = [1, 4]\<rparr>"
  by code_simp

text \<open>
  The builder returns on input with bytes of 128 and more as well: the list of the one string
  of the letter e with an acute accent in UTF-8 (the bytes C3 A9) gives a list node and a string node below it.
\<close>

lemma get_tree_representation_utf8:
  "get_tree_representation clamped_high_byte declaration_order
     [CHR ''['', CHR 0x22, CHR 0xC3, CHR 0xA9, CHR 0x22, CHR '']''] =
     Inr \<lparr>node_categories = [NC_LIST, NC_STR],
          parent_node_ids = [parent_node_sentinel, 0],
          node_levels = [0, 1], node_range_begin = [0, 2], node_range_end = [1, 4]\<rparr>"
  by code_simp

section \<open>The offsets after the scan\<close>










subsection \<open>The list offsets of \<^verbatim>\<open>scatter_offsets\<close>\<close>
























lemma nested_lists_tree_built:
  "get_tree_representation clamped_high_byte declaration_order ''[[1],[],[2,3]]'' = Inr nested_lists_tree"
  by code_simp




subsection \<open>The caster: malformed escapes, null rows and the parallel decoder\<close>































lemma set_size_idem: "set_size idx n (set_size idx n s) = set_size idx n s"
  by (simp add: set_size_def)

lemma set_size_eq:
  "set_size idx n s = s\<lparr>d_offsets := (if d_chars s = None then (d_offsets s)[idx := n] else d_offsets s)\<rparr>"
  by (simp add: set_size_def)

lemma row_is_null_set_size: "row_is_null (set_size idx n s) j = row_is_null s j"
  by (simp add: row_is_null_def set_size_def)








text \<open>
  C9. A row whose validity bit is already cleared on entry is skipped by the sequential
  caster and by the warp- and block-parallel caster before anything else is looked at: the
  result is the buffers as they were, with the size of the row set to zero in the size-only
  pass. It does not depend on the options (the null literals among them) nor on the span of
  the row; the mask, the null counter and the character buffer are unchanged, and running
  the caster again on the result changes nothing.
\<close>

theorem caster_skips_null_row:
  assumes "null_mask s = Some m" and "\<not> m ! idx"
  shows "string_parse utf8 options str_tuples idx s =
           s\<lparr>d_offsets := (if d_chars s = None then (d_offsets s)[idx := 0] else d_offsets s)\<rparr> \<and>
         parse_fn_string_parallel is_warp num_warps utf8 options str_tuples idx s =
           s\<lparr>d_offsets := (if d_chars s = None then (d_offsets s)[idx := 0] else d_offsets s)\<rparr> \<and>
         string_parse utf8 options str_tuples idx (string_parse utf8 options str_tuples idx s) =
           string_parse utf8 options str_tuples idx s \<and>
         parse_fn_string_parallel is_warp num_warps utf8 options str_tuples idx
            (parse_fn_string_parallel is_warp num_warps utf8 options str_tuples idx s) =
           parse_fn_string_parallel is_warp num_warps utf8 options str_tuples idx s"
proof -
  have n: "row_is_null s idx" using assms by (simp add: row_is_null_def)
  have n': "row_is_null (set_size idx 0 s) idx" using n by (simp add: row_is_null_set_size)
  have a: "string_parse utf8 options str_tuples idx s' = set_size idx 0 s'"
    if "row_is_null s' idx" for s'
    using that by (simp add: string_parse_def)
  have b: "parse_fn_string_parallel is_warp num_warps utf8 options str_tuples idx s' = set_size idx 0 s'"
    if "row_is_null s' idx" for s'
    using that by (simp add: parse_fn_string_parallel_def Let_def)
  show ?thesis
    unfolding a [OF n] b [OF n] a [OF n'] b [OF n'] set_size_idem
    using set_size_eq [of idx 0 s] by simp
qed

theorem caster_skips_null_row_witness:
  "null_mask \<lparr>null_mask = Some [True, False], null_count = 1, d_offsets = [5, 7], d_chars = None\<rparr> =
     Some [True, False] \<and>
   \<not> [True, False] ! 1 \<and>
   string_parse utf8_encode json_string_options [''\"ab\"'', ''null''] 1
     \<lparr>null_mask = Some [True, False], null_count = 1, d_offsets = [5, 7], d_chars = None\<rparr> =
     \<lparr>null_mask = Some [True, False], null_count = 1, d_offsets = [5, 0], d_chars = None\<rparr> \<and>
   parse_fn_string_parallel True 8 utf8_encode json_string_options [''\"ab\"'', ''null''] 1
     \<lparr>null_mask = Some [True, False], null_count = 1, d_offsets = [5, 7], d_chars = None\<rparr> =
     \<lparr>null_mask = Some [True, False], null_count = 1, d_offsets = [5, 0], d_chars = None\<rparr>"
proof -
  let ?s = "\<lparr>null_mask = Some [True, False], null_count = 1, d_offsets = [5, 7], d_chars = None\<rparr>"
  have h1: "null_mask ?s = Some [True, False]" by simp
  have h2: "\<not> [True, False] ! 1" by simp
  from caster_skips_null_row [OF h1 h2, of utf8_encode json_string_options "[''\"ab\"'', ''null'']" True 8]
  show ?thesis by simp
qed




text \<open>
  C8. The sequential and the warp-parallel decoder differ after an escaped backslash. The
  span quote, backslash, backslash, \<open>x\<close>, quote is decoded to two bytes by the
  sequential caster and made null by the parallel caster, whose lane of the \<open>x\<close> tests the
  character before it against the backslash and not against the escaping backslashes of the
  scan; for the same reason the content backslash, backslash, \<open>n\<close> gives backslash, \<open>n\<close> in
  the sequential decoder and backslash, line feed in the parallel one.
\<close>

theorem string_decode_paths_diverge:
  "string_parse utf8_encode json_string_options
     [[CHR 0x22, backslash_char, backslash_char, CHR ''x'', CHR 0x22]] 0 one_valid_row =
     \<lparr>null_mask = Some [True], null_count = 0, d_offsets = [2], d_chars = None\<rparr> \<and>
   parse_fn_string_parallel True 8 utf8_encode json_string_options
     [[CHR 0x22, backslash_char, backslash_char, CHR ''x'', CHR 0x22]] 0 one_valid_row =
     \<lparr>null_mask = Some [False], null_count = 1, d_offsets = [0], d_chars = None\<rparr> \<and>
   process_string utf8_encode (CHR 0x22) False
     [CHR 0x22, backslash_char, backslash_char, CHR ''n'', CHR 0x22] =
     ([backslash_char, CHR ''n''], PARSING_SUCCESS) \<and>
   chunk_loop utf8_encode [backslash_char, backslash_char, CHR ''n''] warp_size [0] False [] =
     ([backslash_char, CHR 0x0A], False)"
  by code_simp

subsection \<open>The array-of-objects check\<close>



text \<open>
  The tokenizer and the tree builder raise no error on a bare value, a list of lists and a
  struct at the top level; the category of the root node gives the type of the root column.
\<close>

lemma other_shapes_have_trees:
  "get_tree_representation clamped_high_byte declaration_order ''1'' =
     Inr \<lparr>node_categories = [NC_VAL], parent_node_ids = [parent_node_sentinel],
          node_levels = [0], node_range_begin = [0], node_range_end = [1]\<rparr> \<and>
   get_tree_representation clamped_high_byte declaration_order ''[[1]]'' =
     Inr \<lparr>node_categories = [NC_LIST, NC_LIST, NC_VAL],
          parent_node_ids = [parent_node_sentinel, 0, 1], node_levels = [0, 1, 2],
          node_range_begin = [0, 1, 2], node_range_end = [1, 2, 3]\<rparr> \<and>
   get_tree_representation clamped_high_byte declaration_order ''{\"a\":1}'' =
     Inr \<lparr>node_categories = [NC_STRUCT, NC_FN, NC_VAL],
          parent_node_ids = [parent_node_sentinel, 0, 1], node_levels = [0, 1, 2],
          node_range_begin = [0, 2, 5], node_range_end = [1, 3, 6]\<rparr> \<and>
   map to_json_col_type [NC_VAL, NC_LIST, NC_STRUCT] = [StringColumn, ListColumn, StructColumn]"
  by code_simp



end
